theory Spec2Isabelle
  imports Main "HOL-Library.Sublist"
begin

section \<open>Python values used by kb\_compare.py\<close>

text \<open>
  An uncaught exception or a call of \<open>exit\<close> ends the run. \<open>SystemExit msg code\<close>
  stands for \<open>printErr(msg); exit(code)\<close>; the other constructors are the exceptions
  the modelled functions can raise.
\<close>

datatype py_error =
    SystemExit string int
  | ValueError
  | KeyError string
  | IndexError
  | AttributeError
  | TypeError

text \<open>The status the interpreter hands to the shell: the argument of \<open>exit\<close>, and
  1 after an uncaught exception.\<close>

fun exit_status :: "py_error \<Rightarrow> int" where
  "exit_status (SystemExit msg code) = code"
| "exit_status e = 1"

subsection \<open>Strings\<close>

text \<open>\<open>s.startswith(p)\<close>\<close>

definition startswith :: "string \<Rightarrow> string \<Rightarrow> bool" where
  "startswith s p = (take (length p) s = p)"

text \<open>\<open>s.index(sub)\<close>: the position of the first occurrence, \<open>None\<close> where Python
  raises ValueError.\<close>

fun str_index :: "string \<Rightarrow> string \<Rightarrow> nat option" where
  "str_index [] sub = (if sub = [] then Some 0 else None)"
| "str_index (c # cs) sub =
     (if startswith (c # cs) sub then Some 0
      else (case str_index cs sub of None \<Rightarrow> None | Some i \<Rightarrow> Some (Suc i)))"

text \<open>\<open>sub in s\<close>\<close>

definition str_in :: "string \<Rightarrow> string \<Rightarrow> bool" where
  "str_in sub s = (str_index s sub \<noteq> None)"

text \<open>The characters \<open>str.strip()\<close> removes, within ASCII: tab, line feed, vertical
  tab, form feed, carriage return, the separators 0x1c to 0x1f, and space.\<close>

definition is_space :: "char \<Rightarrow> bool" where
  "is_space c = (c \<in> set [CHR 0x09, CHR 0x0A, CHR 0x0B, CHR 0x0C, CHR 0x0D,
                          CHR 0x1C, CHR 0x1D, CHR 0x1E, CHR 0x1F, CHR 0x20])"

definition strip :: "string \<Rightarrow> string" where
  "strip s = rev (dropWhile is_space (rev (dropWhile is_space s)))"

text \<open>\<open>s.split(c)\<close> for a one-character separator.\<close>

fun split_char :: "char \<Rightarrow> string \<Rightarrow> string list" where
  "split_char c [] = [[]]"
| "split_char c (x # xs) =
     (if x = c then [] # split_char c xs
      else (case split_char c xs of
              [] \<Rightarrow> [[x]]
            | p # ps \<Rightarrow> (x # p) # ps))"

section \<open>Data model\<close>

text \<open>class Field\<close>

record field =
  order_num :: nat
  multiple :: bool

text \<open>
  class Entity. A record of a KB is a Python object; \<open>matched\<close> holds a reference to
  a record of the other KB, modelled as the address of that record in the other
  KB's store.
\<close>

record entity =
  data :: "string list list"
  weight :: int
  used :: bool
  matched :: "nat option"

text \<open>\<open>Entity.get_field\<close>: \<open>self.data[order_num]\<close>, IndexError out of range.\<close>

definition get_field :: "entity \<Rightarrow> nat \<Rightarrow> py_error + string list" where
  "get_field e n = (if n < length (data e) then Inr (data e ! n) else Inl IndexError)"

text \<open>class Relation; the types are the integers of the source, and 0 is the
  value \<open>rel_type\<close> has before the first section header.\<close>

record relation =
  kb1_field :: nat
  kb2_field :: nat
  rtype :: nat
  blacklist :: "string set"

definition UNIQUE :: nat where "UNIQUE = 1"
definition NAME :: nat where "NAME = 2"
definition OTHER :: nat where "OTHER = 3"

text \<open>class KB, as far as the schema goes: the file name and the dictionary of
  fields by qualified name.\<close>

record kb =
  kb_name :: string
  kb_fields :: "(string \<times> field) list"

text \<open>\<open>KB.__contains__\<close> and \<open>KB.get_field_order_num\<close>\<close>

definition kb_contains :: "kb \<Rightarrow> string \<Rightarrow> bool" where
  "kb_contains k field_name = (map_of (kb_fields k) field_name \<noteq> None)"

definition get_field_order_num :: "kb \<Rightarrow> string \<Rightarrow> py_error + nat" where
  "get_field_order_num k field_name =
     (case map_of (kb_fields k) field_name of
        None \<Rightarrow> Inl (KeyError field_name)
      | Some f \<Rightarrow> Inr (order_num f))"

section \<open>Freebase normalisation (Entity.fixFreebaseUrl, KB.load\_to\_memory)\<close>

text \<open>The body of the loop of \<open>fixFreebaseUrl\<close> for one value. The \<open>None\<close> branch
  of the case is the ValueError of \<open>index\<close>, which the test before it excludes.\<close>

definition fix_one_url :: "string \<Rightarrow> string" where
  "fix_one_url freebase_url =
     (if str_in ''freebase.com/'' freebase_url
         \<and> \<not> str_in ''http://www.freebase.com/'' freebase_url
      then (case str_index freebase_url ''freebase.com/'' of
              Some fix_idx \<Rightarrow> ''http://www.'' @ drop fix_idx freebase_url
            | None \<Rightarrow> freebase_url)
      else freebase_url)"

definition fixFreebaseUrl :: "entity \<Rightarrow> nat \<Rightarrow> py_error + entity" where
  "fixFreebaseUrl e freebase_idx =
     (if freebase_idx < length (data e)
      then Inr (e\<lparr>data := (data e)[freebase_idx := map fix_one_url (data e ! freebase_idx)]\<rparr>)
      else Inl IndexError)"

text \<open>The part of \<open>load_to_memory\<close> that follows the construction of one record: the
  fix is applied when the schema has the field \<open>FREEBASE URL\<close>.\<close>

definition load_fix :: "kb \<Rightarrow> entity \<Rightarrow> py_error + entity" where
  "load_fix k e =
     (let freebase_name = kb_name k @ ''.'' @ ''FREEBASE URL'' in
      if kb_contains k freebase_name
      then (case get_field_order_num k freebase_name of
              Inl err \<Rightarrow> Inl err
            | Inr freebase_idx \<Rightarrow> fixFreebaseUrl e freebase_idx)
      else Inr e)"

section \<open>Relation config (parse\_relations)\<close>

text \<open>
  The body of the loop over the lines of the file, on the current \<open>rel_type\<close> and
  the list built so far. A line read from a file keeps its line terminator, so the
  first test (\<open>not line\<close>) is kept as the source has it although no line of a file
  is empty. The unpacking \<open>first,second = line.split('=')\<close> raises ValueError unless
  the split has exactly two parts.
\<close>

text \<open>The unpacking of a list into two names.\<close>

fun unpack2 :: "string list \<Rightarrow> py_error + (string \<times> string)" where
  "unpack2 [a, b] = Inr (a, b)"
| "unpack2 xs = Inl ValueError"

definition parse_line ::
  "string \<Rightarrow> kb \<Rightarrow> kb \<Rightarrow> nat \<times> relation list \<Rightarrow> string \<Rightarrow> py_error + (nat \<times> relation list)"
where
  "parse_line fname kb1 kb2 st line =
     (if line = [] then Inr st
      else if startswith line ''UNIQUE:'' then Inr (UNIQUE, snd st)
      else if startswith line ''NAME:'' then Inr (NAME, snd st)
      else if startswith line ''OTHER:'' then Inr (OTHER, snd st)
      else if startswith line [CHR 0x09] then
        (case unpack2 (split_char CHR ''='' (strip line)) of
           Inl err \<Rightarrow> Inl err
         | Inr (a, b) \<Rightarrow>
             (let first = (if startswith a (kb_name kb2) then b else a);
                  second = (if startswith a (kb_name kb2) then a else b)
              in case get_field_order_num kb1 first of
                   Inl err \<Rightarrow> Inl err
                 | Inr fieldnum1 \<Rightarrow>
                     (case get_field_order_num kb2 second of
                        Inl err \<Rightarrow> Inl err
                      | Inr fieldnum2 \<Rightarrow>
                          Inr (fst st, snd st @ [\<lparr>kb1_field = fieldnum1, kb2_field = fieldnum2,
                                                  rtype = fst st, blacklist = {}\<rparr>]))))
      else Inl (SystemExit (''Invalid format of the config file '' @ fname @ ''.'') 1))"

text \<open>The loop: the first line that raises or exits ends it.\<close>

fun parse_lines ::
  "string \<Rightarrow> kb \<Rightarrow> kb \<Rightarrow> nat \<times> relation list \<Rightarrow> string list \<Rightarrow> py_error + (nat \<times> relation list)"
where
  "parse_lines fname kb1 kb2 st [] = Inr st"
| "parse_lines fname kb1 kb2 st (line # rest) =
     (case parse_line fname kb1 kb2 st line of
        Inl err \<Rightarrow> Inl err
      | Inr st' \<Rightarrow> parse_lines fname kb1 kb2 st' rest)"

text \<open>\<open>parse_relations\<close>; the file is given by its lines, \<open>None\<close> when it cannot be
  opened.\<close>

definition parse_relations :: "string \<Rightarrow> string list option \<Rightarrow> kb \<Rightarrow> kb \<Rightarrow> py_error + relation list" where
  "parse_relations fname rel_fd kb1 kb2 =
     (case rel_fd of
        None \<Rightarrow> Inl (SystemExit (''Cannot open file '' @ fname @ ''.'') 1)
      | Some ls \<Rightarrow>
          (case parse_lines fname kb1 kb2 (0, []) ls of
             Inl err \<Rightarrow> Inl err
           | Inr st \<Rightarrow> Inr (snd st)))"

section \<open>Stores and indexes\<close>

text \<open>
  The records of a KB are objects with identity: a store maps the address of a
  record to its current state, and \<open>kb.entities\<close> is a list of addresses. A set of
  records is a list of addresses without repetition, in insertion order (the
  iteration order of a Python set is not specified; the model fixes this one).
\<close>

type_synonym store = "nat \<Rightarrow> entity"

type_synonym pydict = "string \<Rightarrow> nat list option"

text \<open>The index of a KB: a list of \<open>field_count + 1\<close> slots, a dictionary at the
  indexed ordinals and the integer placeholder (\<open>None\<close> here) elsewhere.\<close>

type_synonym kbindex = "pydict option list"

definition set_add :: "nat \<Rightarrow> nat list \<Rightarrow> nat list" where
  "set_add a es = (if a \<in> set es then es else es @ [a])"

definition dict_get :: "pydict \<Rightarrow> string \<Rightarrow> nat list" where
  "dict_get d v = (case d v of None \<Rightarrow> [] | Some es \<Rightarrow> es)"


text \<open>\<open>index[f].setdefault(v, set()).add(a)\<close>\<close>

definition index_add :: "kbindex \<Rightarrow> nat \<Rightarrow> string \<Rightarrow> nat \<Rightarrow> py_error + kbindex" where
  "index_add idx f v a =
     (if f < length idx
      then (case idx ! f of
              None \<Rightarrow> Inl AttributeError
            | Some d \<Rightarrow> Inr (idx[f := Some (d(v \<mapsto> set_add a (dict_get d v)))]))
      else Inl IndexError)"

section \<open>Building an index (\_make\_index)\<close>

definition fields_to_index :: "(relation \<Rightarrow> nat) \<Rightarrow> relation list \<Rightarrow> nat list" where
  "fields_to_index side rels = remdups (map side (filter (\<lambda>r. rtype r \<noteq> OTHER) rels))"

definition blackdict :: "(relation \<Rightarrow> nat) \<Rightarrow> relation list \<Rightarrow> nat \<Rightarrow> string set" where
  "blackdict side rels f =
     \<Union> (set (map blacklist (filter (\<lambda>r. rtype r \<noteq> OTHER \<and> side r = f) rels)))"

fun index_values :: "nat \<Rightarrow> string set \<Rightarrow> nat \<Rightarrow> string list \<Rightarrow> kbindex \<Rightarrow> py_error + kbindex" where
  "index_values a bl f [] idx = Inr idx"
| "index_values a bl f (one_value # vs) idx =
     (if one_value \<in> bl then index_values a bl f vs idx
      else (case index_add idx f one_value a of
              Inl err \<Rightarrow> Inl err
            | Inr idx' \<Rightarrow> index_values a bl f vs idx'))"

fun index_fields ::
  "nat \<Rightarrow> entity \<Rightarrow> (nat \<Rightarrow> string set) \<Rightarrow> nat list \<Rightarrow> kbindex \<Rightarrow> py_error + kbindex" where
  "index_fields a e bd [] idx = Inr idx"
| "index_fields a e bd (f # fs) idx =
     (case get_field e f of
        Inl err \<Rightarrow> Inl err
      | Inr value \<Rightarrow>
          (case index_values a (bd f) f value idx of
             Inl err \<Rightarrow> Inl err
           | Inr idx' \<Rightarrow> index_fields a e bd fs idx'))"

fun index_entities ::
  "store \<Rightarrow> (nat \<Rightarrow> string set) \<Rightarrow> nat list \<Rightarrow> nat list \<Rightarrow> kbindex \<Rightarrow> py_error + kbindex" where
  "index_entities st bd fs [] idx = Inr idx"
| "index_entities st bd fs (a # as) idx =
     (case index_fields a (st a) bd fs idx of
        Inl err \<Rightarrow> Inl err
      | Inr idx' \<Rightarrow> index_entities st bd fs as idx')"

definition make_index ::
  "store \<Rightarrow> nat list \<Rightarrow> nat \<Rightarrow> relation list \<Rightarrow> (relation \<Rightarrow> nat) \<Rightarrow> py_error + kbindex" where
  "make_index st kb_entities kb_field_count relations side =
     (let fs = fields_to_index side relations in
      if \<exists>f \<in> set fs. kb_field_count < f then Inl IndexError
      else index_entities st (blackdict side relations) fs kb_entities
             (map (\<lambda>x. if x \<in> set fs then Some Map.empty else None) [0..<kb_field_count + 1]))"

section \<open>Matching\<close>


































section \<open>Output (Output.make\_output, KbGenerateId.generateId)\<close>

text \<open>\<open>str(counter)\<close> for a counter that is never negative.\<close>

fun str_nat :: "nat \<Rightarrow> string" where
  "str_nat n = (if n < 10 then [char_of (48 + n)] else str_nat (n div 10) @ [char_of (48 + n mod 10)])"

text \<open>\<open>generateId\<close>; the SHA-224 hex digest is a parameter, and a id_prefix that was not
  given on the command line is \<open>None\<close>, which cannot be concatenated.\<close>

definition generateId :: "(string \<Rightarrow> string) \<Rightarrow> string option \<Rightarrow> nat \<Rightarrow> py_error + string" where
  "generateId sha224_hex id_prefix counter =
     (case id_prefix of
        None \<Rightarrow> Inl TypeError
      | Some p \<Rightarrow> Inr (p @ '':'' @ take 10 (sha224_hex (str_nat counter))))"

text \<open>\<open>s.strip('"')\<close>\<close>

definition strip_quotes :: "string \<Rightarrow> string" where
  "strip_quotes s = rev (dropWhile (\<lambda>c. c = CHR 0x22) (rev (dropWhile (\<lambda>c. c = CHR 0x22) s)))"

text \<open>\<open>uniqifyList(seq, order_preserving=False)\<close>, that is \<open>list(set(seq))\<close>: the
  values without repetition, in an order Python does not specify (the model keeps
  the order of the last occurrences).\<close>

definition uniqifyList_unordered :: "string list \<Rightarrow> string list" where
  "uniqifyList_unordered seq = remdups seq"

text \<open>The state of the renderer: the ID counter, the lines written to the output
  file, and the records printed to standard output by \<open>print(line)\<close>. An exception
  is returned with the state it left behind.\<close>

record ostate =
  counter :: nat
  output_fd :: "string list"
  printed :: "entity list"

text \<open>The values of the other KB that the relations pair with an ordinal.\<close>

fun related_values ::
  "(relation \<Rightarrow> nat) \<Rightarrow> (relation \<Rightarrow> nat) \<Rightarrow> nat \<Rightarrow> (nat \<Rightarrow> py_error + string list)
     \<Rightarrow> relation list \<Rightarrow> py_error + string list" where
  "related_values this other n get [] = Inr []"
| "related_values this other n get (r # rs) =
     (if this r = n then
        (case get (other r) of
           Inl err \<Rightarrow> Inl err
         | Inr vs \<Rightarrow>
             (case related_values this other n get rs of
                Inl err \<Rightarrow> Inl err
              | Inr ws \<Rightarrow> Inr (vs @ ws)))
      else related_values this other n get rs)"

text \<open>\<open>line.matched.get_field(n)\<close>: AttributeError when \<open>matched\<close> is \<open>None\<close>.\<close>

definition matched_get_field :: "store \<Rightarrow> entity \<Rightarrow> nat \<Rightarrow> py_error + string list" where
  "matched_get_field st2 line n =
     (case matched line of
        None \<Rightarrow> Inl AttributeError
      | Some m \<Rightarrow> get_field (st2 m) n)"

definition truncate_single :: "field \<Rightarrow> string list \<Rightarrow> string list" where
  "truncate_single ff possible =
     (if \<not> multiple ff \<and> length possible > 1 then take 1 possible else possible)"

text \<open>A \<open><kb>.<field>\<close> token of the template for matched records.\<close>

definition matched_field_token ::
  "kb \<Rightarrow> kb \<Rightarrow> store \<Rightarrow> relation list \<Rightarrow> entity \<Rightarrow> string \<Rightarrow> ostate
     \<Rightarrow> (py_error \<times> ostate) + (string list \<times> ostate)" where
  "matched_field_token kb1 kb2 st2 relations line fieldname os =
     (if startswith fieldname (kb_name kb1) then
        (case map_of (kb_fields kb1) fieldname of
           None \<Rightarrow> Inl (KeyError fieldname, os)
         | Some ff \<Rightarrow>
             (case get_field line (order_num ff) of
                Inl err \<Rightarrow> Inl (err, os)
              | Inr own \<Rightarrow>
                  if multiple ff \<or> length own = 0 then
                    (case related_values kb1_field kb2_field (order_num ff)
                            (matched_get_field st2 line) relations of
                       Inl err \<Rightarrow> Inl (err, os)
                     | Inr extra \<Rightarrow> Inr (truncate_single ff (uniqifyList_unordered (own @ extra)), os))
                  else Inr (truncate_single ff (uniqifyList_unordered own), os)))
      else
        (case map_of (kb_fields kb2) fieldname of
           None \<Rightarrow> Inl (KeyError fieldname, os)
         | Some ff \<Rightarrow>
             (let os' = (if matched line = None then os\<lparr>printed := printed os @ [line]\<rparr> else os) in
              case matched_get_field st2 line (order_num ff) of
                Inl err \<Rightarrow> Inl (err, os')
              | Inr theirs \<Rightarrow>
                  if multiple ff \<or> length theirs = 0 then
                    (case related_values kb2_field kb1_field (order_num ff) (get_field line) relations of
                       Inl err \<Rightarrow> Inl (err, os')
                     | Inr extra \<Rightarrow> Inr (truncate_single ff (uniqifyList_unordered (theirs @ extra)), os'))
                  else Inr (truncate_single ff (uniqifyList_unordered theirs), os'))))"

text \<open>The token \<open>ID\<close>: \<open>_generateId\<close> increments the counter, then generates.\<close>

definition generateId_next ::
  "(string \<Rightarrow> string) \<Rightarrow> string option \<Rightarrow> ostate \<Rightarrow> (py_error \<times> ostate) + (string list \<times> ostate)" where
  "generateId_next sha id_prefix os =
     (case generateId sha id_prefix (counter os + 1) of
        Inl err \<Rightarrow> Inl (err, os\<lparr>counter := counter os + 1\<rparr>)
      | Inr i \<Rightarrow> Inr ([i], os\<lparr>counter := counter os + 1\<rparr>))"

text \<open>One token of the template for matched records (\<open>None\<close> is the token written
  \<open>None\<close> in the configuration file).\<close>

definition matched_token ::
  "(string \<Rightarrow> string) \<Rightarrow> string option \<Rightarrow> kb \<Rightarrow> kb \<Rightarrow> store \<Rightarrow> relation list \<Rightarrow> entity
     \<Rightarrow> string option \<Rightarrow> ostate \<Rightarrow> (py_error \<times> ostate) + (string list \<times> ostate)" where
  "matched_token sha id_prefix kb1 kb2 st2 relations line fieldname os =
     (if fieldname = Some ''ID'' then generateId_next sha id_prefix os
      else (case fieldname of
              None \<Rightarrow> Inr ([[]], os)
            | Some f \<Rightarrow>
                if startswith f [CHR 0x22] then Inr ([strip_quotes f], os)
                else matched_field_token kb1 kb2 st2 relations line f os))"

fun matched_tokens ::
  "(string \<Rightarrow> string) \<Rightarrow> string option \<Rightarrow> kb \<Rightarrow> kb \<Rightarrow> store \<Rightarrow> relation list \<Rightarrow> entity
     \<Rightarrow> string option list \<Rightarrow> string list list \<Rightarrow> ostate
     \<Rightarrow> (py_error \<times> ostate) + (string list list \<times> ostate)" where
  "matched_tokens sha id_prefix kb1 kb2 st2 relations line [] generated_line os =
     Inr (generated_line, os)"
| "matched_tokens sha id_prefix kb1 kb2 st2 relations line (fieldname # rest) generated_line os =
     (case matched_token sha id_prefix kb1 kb2 st2 relations line fieldname os of
        Inl err \<Rightarrow> Inl err
      | Inr (cell, os') \<Rightarrow>
          matched_tokens sha id_prefix kb1 kb2 st2 relations line rest (generated_line @ [cell]) os')"

text \<open>A token \<open>a|b|c\<close> of the template for unmatched records: the values of the
  named fields of KB1.\<close>

fun union_fields :: "kb \<Rightarrow> entity \<Rightarrow> string list \<Rightarrow> py_error + string list" where
  "union_fields kb1 line [] = Inr []"
| "union_fields kb1 line (fn # fns) =
     (case get_field_order_num kb1 fn of
        Inl err \<Rightarrow> Inl err
      | Inr n \<Rightarrow>
          (case get_field line n of
             Inl err \<Rightarrow> Inl err
           | Inr vs \<Rightarrow>
               (case union_fields kb1 line fns of
                  Inl err \<Rightarrow> Inl err
                | Inr ws \<Rightarrow> Inr (vs @ ws))))"

definition unmatched_token ::
  "(string \<Rightarrow> string) \<Rightarrow> string option \<Rightarrow> kb \<Rightarrow> entity \<Rightarrow> string option \<Rightarrow> ostate
     \<Rightarrow> (py_error \<times> ostate) + (string list \<times> ostate)" where
  "unmatched_token sha id_prefix kb1 line fieldname os =
     (if fieldname = Some ''ID'' then generateId_next sha id_prefix os
      else (case fieldname of
              None \<Rightarrow> Inr ([[]], os)
            | Some f \<Rightarrow>
                if startswith f [CHR 0x22] then Inr ([strip_quotes f], os)
                else (case union_fields kb1 line (split_char CHR ''|'' f) of
                        Inl err \<Rightarrow> Inl (err, os)
                      | Inr possible \<Rightarrow> Inr (uniqifyList_unordered possible, os))))"

fun unmatched_tokens ::
  "(string \<Rightarrow> string) \<Rightarrow> string option \<Rightarrow> kb \<Rightarrow> entity
     \<Rightarrow> string option list \<Rightarrow> string list list \<Rightarrow> ostate
     \<Rightarrow> (py_error \<times> ostate) + (string list list \<times> ostate)" where
  "unmatched_tokens sha id_prefix kb1 line [] generated_line os = Inr (generated_line, os)"
| "unmatched_tokens sha id_prefix kb1 line (fieldname # rest) generated_line os =
     (case unmatched_token sha id_prefix kb1 line fieldname os of
        Inl err \<Rightarrow> Inl err
      | Inr (cell, os') \<Rightarrow>
          unmatched_tokens sha id_prefix kb1 line rest (generated_line @ [cell]) os')"

text \<open>\<open>sep.join(parts)\<close> and \<open>write_line_to_output\<close>\<close>

fun join :: "string \<Rightarrow> string list \<Rightarrow> string" where
  "join sep [] = []"
| "join sep [x] = x"
| "join sep (x # y # ys) = x @ sep @ join sep (y # ys)"

definition write_line_to_output :: "string list list \<Rightarrow> ostate \<Rightarrow> ostate" where
  "write_line_to_output line os =
     os\<lparr>output_fd := output_fd os @ [join [CHR 0x09] (map (join ''|'') line) @ [CHR 0x0A]]\<rparr>"

text \<open>
  The body of the loop over the records of KB1 in \<open>make_output\<close>, and the loop; an
  exception ends it. What follows the loop in the source (the counts and the
  records of KB2 that were not matched) runs only when the loop has ended
  without one.
\<close>

definition render_record ::
  "(string \<Rightarrow> string) \<Rightarrow> string option \<Rightarrow> kb \<Rightarrow> kb \<Rightarrow> store \<Rightarrow> relation list
     \<Rightarrow> string option list \<Rightarrow> string option list \<Rightarrow> entity \<Rightarrow> ostate
     \<Rightarrow> (py_error \<times> ostate) + ostate" where
  "render_record sha id_prefix kb1 kb2 st2 relations output_fields other_output_fields line os =
     (case (if used line
            then matched_tokens sha id_prefix kb1 kb2 st2 relations line output_fields [] os
            else unmatched_tokens sha id_prefix kb1 line other_output_fields [] os) of
        Inl err \<Rightarrow> Inl err
      | Inr (generated_line, os') \<Rightarrow> Inr (write_line_to_output generated_line os'))"

fun make_output_loop ::
  "(string \<Rightarrow> string) \<Rightarrow> string option \<Rightarrow> kb \<Rightarrow> kb \<Rightarrow> store \<Rightarrow> store \<Rightarrow> relation list
     \<Rightarrow> string option list \<Rightarrow> string option list \<Rightarrow> nat list \<Rightarrow> ostate
     \<Rightarrow> (py_error \<times> ostate) + ostate" where
  "make_output_loop sha id_prefix kb1 kb2 st1 st2 relations output_fields other_output_fields [] os =
     Inr os"
| "make_output_loop sha id_prefix kb1 kb2 st1 st2 relations output_fields other_output_fields (a # rest) os =
     (case render_record sha id_prefix kb1 kb2 st2 relations output_fields other_output_fields (st1 a) os of
        Inl err \<Rightarrow> Inl err
      | Inr os' \<Rightarrow>
          make_output_loop sha id_prefix kb1 kb2 st1 st2 relations output_fields other_output_fields rest os')"

text \<open>\<open>make_output\<close> sets the counter to 0 first.\<close>

definition make_output ::
  "(string \<Rightarrow> string) \<Rightarrow> string option \<Rightarrow> kb \<Rightarrow> kb \<Rightarrow> store \<Rightarrow> store \<Rightarrow> relation list
     \<Rightarrow> string option list \<Rightarrow> string option list \<Rightarrow> nat list \<Rightarrow> (py_error \<times> ostate) + ostate" where
  "make_output sha id_prefix kb1 kb2 st1 st2 relations output_fields other_output_fields kb1_entities =
     make_output_loop sha id_prefix kb1 kb2 st1 st2 relations output_fields other_output_fields
       kb1_entities \<lparr>counter = 0, output_fd = [], printed = []\<rparr>"


section \<open>Deduplication (deduplicate, \_deduplicate, \_collectUniqueIds)\<close>

text \<open>An identifier is a pair of the ordinal of a field and a value of that field.\<close>

type_synonym idpair = "nat \<times> string"

text \<open>\<open>uniqifyList(seq, order_preserving=True)\<close>: the first occurrences, in order.\<close>

definition uniqifyList :: "string list \<Rightarrow> string list" where
  "uniqifyList seq = rev (remdups (rev seq))"

definition countNonEmptyFields :: "entity \<Rightarrow> nat" where
  "countNonEmptyFields e = length (filter (\<lambda>field. field \<noteq> []) (data e))"

text \<open>A record has the value \<open>v\<close> in the field of ordinal \<open>f\<close>.\<close>

definition has_id :: "entity \<Rightarrow> nat \<Rightarrow> string \<Rightarrow> bool" where
  "has_id e f v \<longleftrightarrow> f < length (data e) \<and> v \<in> set (data e ! f)"

text \<open>\<open>_getIdRelations\<close>\<close>

fun getIdRelations :: "kb \<Rightarrow> string list \<Rightarrow> py_error + relation list" where
  "getIdRelations k [] = Inr []"
| "getIdRelations k (field_name # rest) =
     (let kb_field_name = kb_name k @ ''.'' @ field_name in
      if kb_contains k kb_field_name then
        (case get_field_order_num k kb_field_name of
           Inl err \<Rightarrow> Inl err
         | Inr fieldnum1 \<Rightarrow>
             (case getIdRelations k rest of
                Inl err \<Rightarrow> Inl err
              | Inr rs \<Rightarrow>
                  Inr (\<lparr>kb1_field = fieldnum1, kb2_field = 0, rtype = UNIQUE, blacklist = {}\<rparr> # rs)))
      else getIdRelations k rest)"

text \<open>\<open>_getIds\<close> with a blacklist (the only way \<open>_collectUniqueIds\<close> calls it).\<close>

fun getIds :: "nat list \<Rightarrow> entity \<Rightarrow> idpair set \<Rightarrow> py_error + idpair list" where
  "getIds [] e bl = Inr []"
| "getIds (field_idx # rest) e bl =
     (case get_field e field_idx of
        Inl err \<Rightarrow> Inl err
      | Inr unique_ids \<Rightarrow>
          (case getIds rest e bl of
             Inl err \<Rightarrow> Inl err
           | Inr result \<Rightarrow> Inr (filter (\<lambda>p. p \<notin> bl) (map (Pair field_idx) unique_ids) @ result)))"

text \<open>
  \<open>index_for_kb[f].get(v)\<close> where the result is iterated over at once: a value
  that is not a key gives \<open>None\<close>, and iterating over it is a TypeError.
\<close>

definition index_get_iter :: "kbindex \<Rightarrow> nat \<Rightarrow> string \<Rightarrow> py_error + nat list" where
  "index_get_iter idx f v =
     (if f < length idx
      then (case idx ! f of
              None \<Rightarrow> Inl AttributeError
            | Some d \<Rightarrow> (case d v of None \<Rightarrow> Inl TypeError | Some es \<Rightarrow> Inr es))
      else Inl IndexError)"

text \<open>
  The state of \<open>_collectUniqueIds\<close> while it works on one record taken from the
  queue: the identifiers collected per field (\<open>dest_unique_ids_dict\<close>, each set in
  insertion order), the blacklist, and the candidates staged so far.
\<close>

record cstate =
  dest :: "nat \<Rightarrow> string list"
  black :: "idpair set"
  candidates_ids :: "idpair list"
  candidates_entities :: "(nat \<times> idpair) list"

text \<open>The list comprehension \<open>new_black_ids\<close>: every identifier of the current
  record that is in the collected set of its field is removed from it and listed.\<close>

fun new_black_ids :: "idpair list \<Rightarrow> (nat \<Rightarrow> string list) \<Rightarrow> idpair list \<times> (nat \<Rightarrow> string list)" where
  "new_black_ids [] d = ([], d)"
| "new_black_ids (p # ps) d =
     (if snd p \<in> set (d (fst p))
      then (case new_black_ids ps (d(fst p := removeAll (snd p) (d (fst p)))) of
              (bs, d') \<Rightarrow> (p # bs, d'))
      else new_black_ids ps d)"

text \<open>The body of the loop over \<open>cur_ids\<close>.\<close>

definition collect_id :: "kbindex \<Rightarrow> idpair list \<Rightarrow> idpair \<Rightarrow> cstate \<Rightarrow> py_error + cstate" where
  "collect_id idx cur_ids p st =
     (if p \<in> black st then Inr st
      else if snd p \<notin> set (dest st (fst p)) then
        (if dest st (fst p) \<noteq> [] then
           (case new_black_ids cur_ids (dest st) of
              (bs, d') \<Rightarrow>
                Inr (st\<lparr>dest := d', black := black st \<union> set bs,
                        candidates_ids := [], candidates_entities := []\<rparr>))
         else
           (case index_get_iter idx (fst p) (snd p) of
              Inl err \<Rightarrow> Inl err
            | Inr es \<Rightarrow>
                Inr (st\<lparr>candidates_ids := candidates_ids st @ [p],
                        candidates_entities := candidates_entities st @ map (\<lambda>e. (e, p)) es\<rparr>)))
      else Inr st)"

fun collect_ids :: "kbindex \<Rightarrow> idpair list \<Rightarrow> idpair list \<Rightarrow> cstate \<Rightarrow> py_error + cstate" where
  "collect_ids idx cur_ids [] st = Inr st"
| "collect_ids idx cur_ids (p # ps) st =
     (case collect_id idx cur_ids p st of
        Inl err \<Rightarrow> Inl err
      | Inr st' \<Rightarrow> collect_ids idx cur_ids ps st')"

text \<open>\<open>dest[f].add(v)\<close> for the staged identifiers.\<close>

fun add_ids :: "idpair list \<Rightarrow> (nat \<Rightarrow> string list) \<Rightarrow> nat \<Rightarrow> string list" where
  "add_ids [] d = d"
| "add_ids (p # ps) d =
     add_ids ps (if snd p \<in> set (d (fst p)) then d else d(fst p := d (fst p) @ [snd p]))"

text \<open>
  One turn of the \<open>while\<close> loop, for the record \<open>e\<close> taken from the queue with the
  identifier \<open>from_id\<close> that led to it (\<open>None\<close> for the root, whose tag is the empty
  string and is never in the blacklist). The result is the new collected sets, the
  new blacklist and what is appended to the queue.
\<close>

definition collect_entity ::
  "kbindex \<Rightarrow> nat list \<Rightarrow> entity \<Rightarrow> idpair option \<Rightarrow> (nat \<Rightarrow> string list) \<Rightarrow> idpair set
     \<Rightarrow> py_error + ((nat \<Rightarrow> string list) \<times> idpair set \<times> (nat \<times> idpair option) list)" where
  "collect_entity idx keys e from_id d bl =
     (if (case from_id of None \<Rightarrow> False | Some p \<Rightarrow> p \<in> bl) then Inr (d, bl, [])
      else
        (case getIds keys e bl of
           Inl err \<Rightarrow> Inl err
         | Inr cur_ids \<Rightarrow>
             (case collect_ids idx cur_ids cur_ids
                     \<lparr>dest = d, black = bl, candidates_ids = [], candidates_entities = []\<rparr> of
                Inl err \<Rightarrow> Inl err
              | Inr st \<Rightarrow>
                  Inr (add_ids (candidates_ids st) (dest st), black st,
                       map (\<lambda>c. (fst c, Some (snd c))) (candidates_entities st)))))"

text \<open>
  The \<open>while\<close> loop of \<open>_collectUniqueIds\<close> over the queue. Nothing in the loop
  bounds the number of turns, so the result is optional: \<open>None\<close> is a loop that
  does not end.
\<close>

partial_function (option) collectUniqueIds ::
  "store \<Rightarrow> kbindex \<Rightarrow> nat list \<Rightarrow> (nat \<times> idpair option) list \<Rightarrow> (nat \<Rightarrow> string list) \<Rightarrow> idpair set
     \<Rightarrow> (py_error + ((nat \<Rightarrow> string list) \<times> idpair set)) option" where
  "collectUniqueIds st idx keys fifo_entity d bl =
     (case fifo_entity of
        [] \<Rightarrow> Some (Inr (d, bl))
      | x # rest \<Rightarrow>
          (case collect_entity idx keys (st (fst x)) (snd x) d bl of
             Inl err \<Rightarrow> Some (Inl err)
           | Inr r \<Rightarrow>
               collectUniqueIds st idx keys (rest @ snd (snd r)) (fst r) (fst (snd r))))"

text \<open>The records that the index lists under the collected identifiers.\<close>

fun matches_of_ids :: "kbindex \<Rightarrow> nat \<Rightarrow> string list \<Rightarrow> nat list \<Rightarrow> py_error + nat list" where
  "matches_of_ids idx f [] ms = Inr ms"
| "matches_of_ids idx f (v # vs) ms =
     (case index_get_iter idx f v of
        Inl err \<Rightarrow> Inl err
      | Inr es \<Rightarrow> matches_of_ids idx f vs (fold set_add es ms))"

fun matches_of :: "kbindex \<Rightarrow> nat list \<Rightarrow> (nat \<Rightarrow> string list) \<Rightarrow> nat list \<Rightarrow> py_error + nat list" where
  "matches_of idx [] d ms = Inr ms"
| "matches_of idx (f # fs) d ms =
     (case matches_of_ids idx f (d f) ms of
        Inl err \<Rightarrow> Inl err
      | Inr ms' \<Rightarrow> matches_of idx fs d ms')"

text \<open>
  The fusion of a cluster. \<open>new_entity = copy.copy(matches[0])\<close> is a shallow copy:
  until \<open>new_entity.data\<close> is assigned anew, it is the very list of the record
  \<open>matches[0]\<close>, so that the loop extends the cells of that record (at address \<open>b\<close>).
\<close>

definition extend_data :: "nat \<Rightarrow> string list list \<Rightarrow> string list list \<Rightarrow> py_error + string list list" where
  "extend_data n base_data match_data =
     (if n \<le> length base_data \<and> n \<le> length match_data
      then Inr (map (\<lambda>i. base_data ! i @ match_data ! i) [0..<n] @ drop n base_data)
      else Inl IndexError)"

fun fuse_loop :: "nat \<Rightarrow> nat \<Rightarrow> nat list \<Rightarrow> store \<Rightarrow> py_error + store" where
  "fuse_loop n b [] st = Inr st"
| "fuse_loop n b (m # ms) st =
     (let st1 = st(m := (st m)\<lparr>used := True\<rparr>) in
      case extend_data n (data (st1 b)) (data (st1 m)) of
        Inl err \<Rightarrow> Inl err
      | Inr d \<Rightarrow> fuse_loop n b ms (st1(b := (st1 b)\<lparr>data := d\<rparr>)))"

text \<open>Only a field with the flag (MULTIPLE VALUES) keeps more than one value.\<close>

fun truncate_fields :: "field list \<Rightarrow> string list list \<Rightarrow> py_error + string list list" where
  "truncate_fields [] d = Inr d"
| "truncate_fields (field_head # rest) d =
     (if \<not> multiple field_head then
        (if order_num field_head < length d
         then truncate_fields rest
                (if length (d ! order_num field_head) > 1
                 then d[order_num field_head := take 1 (d ! order_num field_head)] else d)
         else Inl IndexError)
      else truncate_fields rest d)"

text \<open>
  The state of the loop of \<open>_deduplicate\<close>: the records, the blacklist, the new
  list of records, and the address that the next new record gets.
\<close>

record dstate =
  records :: store
  blacklist_of_uniques :: "idpair set"
  new_kb_entities :: "nat list"
  next_address :: nat

definition fuse :: "kb \<Rightarrow> nat \<Rightarrow> nat list \<Rightarrow> dstate \<Rightarrow> py_error + dstate" where
  "fuse k entity matches s =
     (let sorted = sort_key (\<lambda>m. - int (countNonEmptyFields (records s m))) matches;
          b = hd sorted;
          new_entity = records s b in
      case fuse_loop (length (data (records s entity))) b sorted (records s) of
        Inl err \<Rightarrow> Inl err
      | Inr st' \<Rightarrow>
          (case truncate_fields (map snd (kb_fields k)) (map uniqifyList (data (st' b))) of
             Inl err \<Rightarrow> Inl err
           | Inr d \<Rightarrow>
               Inr (s\<lparr>records := st'(next_address s := new_entity\<lparr>data := d\<rparr>),
                       new_kb_entities := new_kb_entities s @ [next_address s],
                       next_address := next_address s + 1\<rparr>)))"

text \<open>The body of the loop of \<open>_deduplicate\<close> for the record at address \<open>entity\<close>.\<close>

definition dedup_entity ::
  "kb \<Rightarrow> kbindex \<Rightarrow> nat list \<Rightarrow> nat \<Rightarrow> dstate \<Rightarrow> (py_error + dstate) option" where
  "dedup_entity k idx keys entity s =
     (if used (records s entity) then Some (Inr s)
      else
        (case collectUniqueIds (records s) idx keys [(entity, None)] (\<lambda>_. []) (blacklist_of_uniques s) of
           None \<Rightarrow> None
         | Some (Inl err) \<Rightarrow> Some (Inl err)
         | Some (Inr (d, bl)) \<Rightarrow>
             (case matches_of idx keys d [] of
                Inl err \<Rightarrow> Some (Inl err)
              | Inr matches \<Rightarrow>
                  if length matches > 1
                  then Some (fuse k entity matches (s\<lparr>blacklist_of_uniques := bl\<rparr>))
                  else Some (Inr (s\<lparr>blacklist_of_uniques := bl,
                                   new_kb_entities := new_kb_entities s @ [entity]\<rparr>)))))"

fun dedup_loop :: "kb \<Rightarrow> kbindex \<Rightarrow> nat list \<Rightarrow> nat list \<Rightarrow> dstate \<Rightarrow> (py_error + dstate) option" where
  "dedup_loop k idx keys [] s = Some (Inr s)"
| "dedup_loop k idx keys (entity # rest) s =
     (case dedup_entity k idx keys entity s of
        None \<Rightarrow> None
      | Some (Inl err) \<Rightarrow> Some (Inl err)
      | Some (Inr s') \<Rightarrow> dedup_loop k idx keys rest s')"

text \<open>
  \<open>_deduplicate\<close> (with \<open>kb_field = "kb1_field"\<close>, as \<open>deduplicate\<close> calls it) and
  \<open>deduplicate\<close>. A new record gets an address that no record of the KB has.
\<close>

definition unique_ids_fields_idx :: "relation list \<Rightarrow> nat list" where
  "unique_ids_fields_idx relations = remdups (map kb1_field (filter (\<lambda>r. rtype r = UNIQUE) relations))"

definition deduplicate_indexed ::
  "kb \<Rightarrow> store \<Rightarrow> nat list \<Rightarrow> kbindex \<Rightarrow> relation list \<Rightarrow> idpair set \<Rightarrow> (py_error + dstate) option" where
  "deduplicate_indexed k st kb_entities index_for_kb relations bl =
     dedup_loop k index_for_kb (unique_ids_fields_idx relations) kb_entities
       \<lparr>records = st, blacklist_of_uniques = bl, new_kb_entities = [],
        next_address = Suc (fold max kb_entities 0)\<rparr>"

definition deduplicate ::
  "kb \<Rightarrow> store \<Rightarrow> nat list \<Rightarrow> nat \<Rightarrow> string list \<Rightarrow> idpair set \<Rightarrow> (py_error + dstate) option" where
  "deduplicate k st kb_entities kb_field_count id_fields bl =
     (case getIdRelations k id_fields of
        Inl err \<Rightarrow> Some (Inl err)
      | Inr relations \<Rightarrow>
          (case make_index st kb_entities kb_field_count relations kb1_field of
             Inl err \<Rightarrow> Some (Inl err)
           | Inr index_for_kb \<Rightarrow> deduplicate_indexed k st kb_entities index_for_kb relations bl))"

section \<open>The pipeline (main)\<close>










text \<open>What a turn of the loop leaves: the collected identifiers of the fields 0 and
  1, the blacklist and the additions to the queue.\<close>

definition turn_view ::
  "py_error + ((nat \<Rightarrow> string list) \<times> idpair set \<times> (nat \<times> idpair option) list)
     \<Rightarrow> py_error + (string list \<times> string list \<times> idpair set \<times> (nat \<times> idpair option) list)" where
  "turn_view r =
     (case r of Inl err \<Rightarrow> Inl err
      | Inr (d, bl, new) \<Rightarrow> Inr (d 0, d 1, bl, new))"

definition black_after :: "py_error + cstate \<Rightarrow> py_error + idpair set" where
  "black_after r = (case r of Inl err \<Rightarrow> Inl err | Inr st \<Rightarrow> Inr (black st))"

section \<open>Example inputs\<close>

definition ex_kb1 :: kb where
  "ex_kb1 = \<lparr>kb_name = ''A'',
             kb_fields = [(''A.ID'', \<lparr>order_num = 0, multiple = False\<rparr>),
                          (''A.FREEBASE URL'', \<lparr>order_num = 1, multiple = True\<rparr>)]\<rparr>"

definition ex_kb2 :: kb where
  "ex_kb2 = \<lparr>kb_name = ''B'',
             kb_fields = [(''B.ID'', \<lparr>order_num = 0, multiple = False\<rparr>),
                          (''B.NAME'', \<lparr>order_num = 1, multiple = True\<rparr>)]\<rparr>"

definition ex_entity_fb :: entity where
  "ex_entity_fb = \<lparr>data = [[''7''], [''m.123/freebase.com/type/X'', ''http://www.freebase.com/m/1'']],
                   weight = 0, used = False, matched = None\<rparr>"

definition ex_rel_pre :: "string list" where
  "ex_rel_pre = [''UNIQUE:'' @ [CHR 0x0A], CHR 0x09 # ''A.ID=B.ID'' @ [CHR 0x0A]]"

definition ex_rel_post :: "string list" where
  "ex_rel_post = [''NAME:'' @ [CHR 0x0A], CHR 0x09 # ''A.FREEBASE URL=B.NAME'' @ [CHR 0x0A]]"

definition blank_entity :: entity where
  "blank_entity = \<lparr>data = [[], [], []], weight = 0, used = False, matched = None\<rparr>"

definition ex_rels :: "relation list" where
  "ex_rels = [\<lparr>kb1_field = 0, kb2_field = 0, rtype = UNIQUE, blacklist = {}\<rparr>,
              \<lparr>kb1_field = 1, kb2_field = 1, rtype = UNIQUE, blacklist = {}\<rparr>,
              \<lparr>kb1_field = 2, kb2_field = 2, rtype = NAME, blacklist = {}\<rparr>]"








text \<open>KB2 with one record whose identifier differs from that of KB1's record 0, whose
  alternative identifier is that of KB1's record 1, and whose name is that of KB1's
  record 0.\<close>

definition ex5_kb2_store :: store where
  "ex5_kb2_store = (\<lambda>_. blank_entity)(0 := blank_entity\<lparr>data := [[''999''], [''x''], [''N'']]\<rparr>)"

definition ex5_index2 :: kbindex where
  "ex5_index2 = [Some [''999'' \<mapsto> [0]], Some [''x'' \<mapsto> [0]], Some [''N'' \<mapsto> [0]], None]"












definition ex9_kb1_store :: store where
  "ex9_kb1_store = (\<lambda>_. blank_entity)
     (0 := \<lparr>data = [[''1''], [''x'']], weight = 0, used = True, matched = None\<rparr>,
      1 := \<lparr>data = [[''2''], [''y'']], weight = 0, used = False, matched = None\<rparr>)"

definition ex9_kb2_store :: store where
  "ex9_kb2_store = (\<lambda>_. blank_entity)"

definition ex9_output_fields :: "string option list" where
  "ex9_output_fields = [Some ''A.ID'', Some ''B.NAME'']"

definition ex9_other_output_fields :: "string option list" where
  "ex9_other_output_fields = [Some ''A.ID'']"










text \<open>Two records that share the identifier 5 in field 0 and have the different
  identifiers u and w in field 1.\<close>

definition ex1_store :: store where
  "ex1_store = (\<lambda>_. \<lparr>data = [[], []], weight = 0, used = False, matched = None\<rparr>)
     (0 := \<lparr>data = [[''5''], [''u'']], weight = 0, used = False, matched = None\<rparr>,
      1 := \<lparr>data = [[''5''], [''w'']], weight = 0, used = False, matched = None\<rparr>)"

definition ex1_index :: kbindex where
  "ex1_index = [Some [''5'' \<mapsto> [0, 1]], Some [''u'' \<mapsto> [0], ''w'' \<mapsto> [1]], None]"

text \<open>The identifiers collected from record 0, when record 1 is taken from the queue.\<close>

definition ex1_collected :: "nat \<Rightarrow> string list" where
  "ex1_collected = (\<lambda>_. [])(0 := [''5''], 1 := [''u''])"

definition ex1_cstate :: cstate where
  "ex1_cstate = \<lparr>dest = ex1_collected, black = {}, candidates_ids = [], candidates_entities = []\<rparr>"

section \<open>Properties of the string functions\<close>

lemma startswith_iff: "startswith s p \<longleftrightarrow> (\<exists>t. s = p @ t)"
  unfolding startswith_def
  by (metis append_eq_conv_conj append_take_drop_id)

lemma str_index_Some:
  "str_index s sub = Some i \<Longrightarrow>
     i \<le> length s \<and> startswith (drop i s) sub \<and> (\<forall>j<i. \<not> startswith (drop j s) sub)"
proof (induction s arbitrary: i)
  case Nil
  then show ?case by (auto simp: startswith_def split: if_splits)
next
  case (Cons c cs)
  show ?case
  proof (cases "startswith (c # cs) sub")
    case True
    then show ?thesis using Cons.prems by simp
  next
    case False
    with Cons.prems obtain k where k: "str_index cs sub = Some k" "i = Suc k"
      by (auto split: option.splits)
    from Cons.IH[OF k(1)] have ih: "k \<le> length cs" "startswith (drop k cs) sub"
      "\<forall>j<k. \<not> startswith (drop j cs) sub" by auto
    have "\<not> startswith (drop j (c # cs)) sub" if "j < Suc k" for j
      using that False ih(3) by (cases j) auto
    then show ?thesis using ih k by simp
  qed
qed

lemma str_index_None:
  "str_index s sub = None \<Longrightarrow> \<not> startswith (drop j s) sub"
proof (induction s arbitrary: j)
  case Nil
  then show ?case by (auto simp: startswith_def split: if_splits)
next
  case (Cons c cs)
  then show ?case by (cases j) (auto split: if_splits option.splits)
qed

lemma sublist_startswith: "sublist sub s \<longleftrightarrow> (\<exists>j. startswith (drop j s) sub)"
proof
  assume "sublist sub s"
  then obtain ps ss where "s = ps @ sub @ ss" by (auto simp: sublist_def)
  then have "startswith (drop (length ps) s) sub" by (simp add: startswith_iff)
  then show "\<exists>j. startswith (drop j s) sub" ..
next
  assume "\<exists>j. startswith (drop j s) sub"
  then obtain j t where "drop j s = sub @ t" by (auto simp: startswith_iff)
  then have "s = take j s @ sub @ t" by (metis append_take_drop_id)
  then show "sublist sub s" unfolding sublist_def by blast
qed

lemma str_in_sublist: "str_in sub s \<longleftrightarrow> sublist sub s"
proof (cases "str_index s sub")
  case None
  then show ?thesis using str_index_None[OF None] by (simp add: str_in_def sublist_startswith)
next
  case (Some i)
  then show ?thesis using str_index_Some[OF Some] by (auto simp: str_in_def sublist_startswith)
qed

lemma fix_one_url_spec:
  "(sublist ''freebase.com/'' u \<and> \<not> sublist ''http://www.freebase.com/'' u \<longrightarrow>
      (\<exists>pre post. u = pre @ ''freebase.com/'' @ post
          \<and> (\<forall>j<length pre. \<not> startswith (drop j u) ''freebase.com/'')
          \<and> fix_one_url u = ''http://www.freebase.com/'' @ post))
   \<and> (\<not> (sublist ''freebase.com/'' u \<and> \<not> sublist ''http://www.freebase.com/'' u) \<longrightarrow>
        fix_one_url u = u)"
proof (intro conjI impI)
  assume a: "sublist ''freebase.com/'' u \<and> \<not> sublist ''http://www.freebase.com/'' u"
  then obtain i where i: "str_index u ''freebase.com/'' = Some i"
    by (auto simp: str_in_sublist[symmetric] str_in_def)
  from str_index_Some[OF i] obtain post where
    p: "i \<le> length u" "drop i u = ''freebase.com/'' @ post"
       "\<forall>j<i. \<not> startswith (drop j u) ''freebase.com/''"
    by (auto simp: startswith_iff)
  have "u = take i u @ ''freebase.com/'' @ post" using p(2) by (metis append_take_drop_id)
  moreover have "length (take i u) = i" using p(1) by simp
  moreover have "fix_one_url u = ''http://www.freebase.com/'' @ post"
    using a i p(2) by (simp add: fix_one_url_def str_in_sublist)
  ultimately show "\<exists>pre post. u = pre @ ''freebase.com/'' @ post
          \<and> (\<forall>j<length pre. \<not> startswith (drop j u) ''freebase.com/'')
          \<and> fix_one_url u = ''http://www.freebase.com/'' @ post"
    using p(3) by metis
next
  assume "\<not> (sublist ''freebase.com/'' u \<and> \<not> sublist ''http://www.freebase.com/'' u)"
  then show "fix_one_url u = u" by (auto simp: fix_one_url_def str_in_sublist)
qed

section \<open>Freebase normalisation\<close>

text \<open>
  C8, as the code has it. For a KB whose schema has the field \<open>FREEBASE URL\<close> at an
  ordinal inside the record, loading rewrites exactly the values of that cell and
  keeps every other cell. A value that contains \<open>freebase.com/\<close> and does not
  contain \<open>http://www.freebase.com/\<close> anywhere becomes \<open>http://www.\<close> followed by the
  value from the first occurrence of \<open>freebase.com/\<close> on; every other value is
  unchanged. The test of the code is containment, not a test of the beginning of
  the value.
\<close>

theorem freebase_fix_contains:
  assumes "map_of (kb_fields k) (kb_name k @ ''.FREEBASE URL'') = Some f"
    and "order_num f < length (data e)"
  shows "\<exists>e'. load_fix k e = Inr e'
          \<and> length (data e') = length (data e)
          \<and> (\<forall>i<length (data e). i \<noteq> order_num f \<longrightarrow> data e' ! i = data e ! i)
          \<and> length (data e' ! order_num f) = length (data e ! order_num f)
          \<and> (\<forall>j<length (data e ! order_num f).
                (sublist ''freebase.com/'' (data e ! order_num f ! j)
                   \<and> \<not> sublist ''http://www.freebase.com/'' (data e ! order_num f ! j) \<longrightarrow>
                 (\<exists>pre post. data e ! order_num f ! j = pre @ ''freebase.com/'' @ post
                    \<and> (\<forall>n<length pre. \<not> startswith (drop n (data e ! order_num f ! j)) ''freebase.com/'')
                    \<and> data e' ! order_num f ! j = ''http://www.freebase.com/'' @ post))
              \<and> (\<not> (sublist ''freebase.com/'' (data e ! order_num f ! j)
                      \<and> \<not> sublist ''http://www.freebase.com/'' (data e ! order_num f ! j)) \<longrightarrow>
                 data e' ! order_num f ! j = data e ! order_num f ! j))"
proof -
  let ?e' = "e\<lparr>data := (data e)[order_num f := map fix_one_url (data e ! order_num f)]\<rparr>"
  have "load_fix k e = Inr ?e'"
    using assms by (simp add: load_fix_def kb_contains_def get_field_order_num_def fixFreebaseUrl_def)
  moreover have "length (data ?e') = length (data e)" by simp
  moreover have "\<forall>i<length (data e). i \<noteq> order_num f \<longrightarrow> data ?e' ! i = data e ! i" by simp
  moreover have c: "data ?e' ! order_num f = map fix_one_url (data e ! order_num f)"
    using assms(2) by simp
  moreover have "length (data ?e' ! order_num f) = length (data e ! order_num f)"
    using c by simp
  moreover have "data ?e' ! order_num f ! j = fix_one_url (data e ! order_num f ! j)"
    if "j < length (data e ! order_num f)" for j
    using c that by simp
  ultimately show ?thesis using fix_one_url_spec by (intro exI[of _ ?e']) simp
qed

theorem freebase_fix_contains_witness:
  "map_of (kb_fields ex_kb1) (kb_name ex_kb1 @ ''.FREEBASE URL'') = Some \<lparr>order_num = 1, multiple = True\<rparr>
   \<and> order_num \<lparr>order_num = 1, multiple = True\<rparr> < length (data ex_entity_fb)
   \<and> load_fix ex_kb1 ex_entity_fb
       = Inr (ex_entity_fb\<lparr>data := [[''7''], [''http://www.freebase.com/type/X'', ''http://www.freebase.com/m/1'']]\<rparr>)"
proof -
  have h1: "map_of (kb_fields ex_kb1) (kb_name ex_kb1 @ ''.FREEBASE URL'') = Some \<lparr>order_num = 1, multiple = True\<rparr>"
    by (simp add: ex_kb1_def)
  have h2: "order_num \<lparr>order_num = 1, multiple = True\<rparr> < length (data ex_entity_fb)"
    by (simp add: ex_entity_fb_def)
  from freebase_fix_contains[OF h1 h2] obtain e' where "load_fix ex_kb1 ex_entity_fb = Inr e'" by blast
  moreover have "load_fix ex_kb1 ex_entity_fb
       = Inr (ex_entity_fb\<lparr>data := [[''7''], [''http://www.freebase.com/type/X'', ''http://www.freebase.com/m/1'']]\<rparr>)"
    by (simp add: load_fix_def kb_contains_def get_field_order_num_def fixFreebaseUrl_def
          ex_kb1_def ex_entity_fb_def fix_one_url_def str_in_def startswith_def)
  ultimately show ?thesis using h1 h2 by simp
qed

text \<open>
  The claim as stated fails on a value that contains \<open>http://www.freebase.com/\<close>
  without beginning with it: it contains \<open>freebase.com/\<close> (first at position 12) and
  does not begin with \<open>http://www.freebase.com/\<close>, yet the code leaves it as it is
  instead of rewriting it to \<open>http://www.freebase.com/a\<close>.
\<close>

theorem freebase_fix_prefix_counterexample:
  "str_in ''freebase.com/'' ''xhttp://www.freebase.com/a''
   \<and> \<not> startswith ''xhttp://www.freebase.com/a'' ''http://www.freebase.com/''
   \<and> str_index ''xhttp://www.freebase.com/a'' ''freebase.com/'' = Some 12
   \<and> fix_one_url ''xhttp://www.freebase.com/a'' = ''xhttp://www.freebase.com/a''
   \<and> fix_one_url ''xhttp://www.freebase.com/a''
       \<noteq> ''http://www.'' @ drop 12 ''xhttp://www.freebase.com/a''"
  by (simp add: fix_one_url_def str_in_def startswith_def)

section \<open>Relation config: malformed lines\<close>

lemma parse_lines_append:
  "parse_lines fname kb1 kb2 st (pre @ rest) =
     (case parse_lines fname kb1 kb2 st pre of
        Inl err \<Rightarrow> Inl err
      | Inr st' \<Rightarrow> parse_lines fname kb1 kb2 st' rest)"
  by (induction pre arbitrary: st) (auto split: sum.splits)

lemma unpack2_Inl: "unpack2 xs = Inl e \<Longrightarrow> e = ValueError"
  by (cases xs rule: unpack2.cases) auto

lemma order_num_Inl: "get_field_order_num k x = Inl e \<Longrightarrow> exit_status e = 1"
  by (auto simp: get_field_order_num_def split: option.splits)

lemma parse_line_exit_status:
  assumes "parse_line fname kb1 kb2 st l = Inl err"
  shows "exit_status err = 1"
proof (cases "l = [] \<or> startswith l ''UNIQUE:'' \<or> startswith l ''NAME:'' \<or> startswith l ''OTHER:''")
  case True
  with assms show ?thesis by (auto simp: parse_line_def split: if_splits)
next
  case False
  show ?thesis
  proof (cases "startswith l [CHR 0x09]")
    case nt: False
    with False assms show ?thesis by (auto simp: parse_line_def)
  next
    case True
    with False assms show ?thesis
      by (auto simp: parse_line_def Let_def split: sum.splits prod.splits
               dest: unpack2_Inl order_num_Inl)
  qed
qed

lemma parse_lines_exit_status:
  "parse_lines fname kb1 kb2 st ls = Inl err \<Longrightarrow> exit_status err = 1"
  by (induction ls arbitrary: st) (auto split: sum.splits dest: parse_line_exit_status)

lemma strip_blank: "\<forall>c\<in>set l. is_space c \<Longrightarrow> strip l = []"
  by (auto simp: strip_def dest: set_dropWhileD)

lemma blank_no_header:
  assumes "\<forall>c\<in>set l. is_space c" "\<not> is_space h"
  shows "\<not> startswith l (h # t)"
proof
  assume "startswith l (h # t)"
  then obtain r where "l = (h # t) @ r" unfolding startswith_iff ..
  then have "h \<in> set l" by simp
  with assms show False by blast
qed

lemma blank_headers:
  assumes "\<forall>c\<in>set l. is_space c"
  shows "\<not> startswith l ''UNIQUE:'' \<and> \<not> startswith l ''NAME:'' \<and> \<not> startswith l ''OTHER:''"
proof -
  have "\<not> is_space CHR ''U''" "\<not> is_space CHR ''N''" "\<not> is_space CHR ''O''"
    by (simp_all add: is_space_def)
  then show ?thesis using blank_no_header[OF assms] by blast
qed

lemma parse_bad_line:
  assumes "line \<noteq> []"
    and "\<not> startswith line ''UNIQUE:'' \<and> \<not> startswith line ''NAME:'' \<and> \<not> startswith line ''OTHER:''"
    and "\<not> startswith line [CHR 0x09]"
  shows "parse_line fname kb1 kb2 st line =
           Inl (SystemExit (''Invalid format of the config file '' @ fname @ ''.'') 1)"
  using assms by (simp add: parse_line_def)

lemma parse_blank_line:
  assumes "line \<noteq> []" "\<forall>c\<in>set line. is_space c"
  shows "\<exists>e. parse_line fname kb1 kb2 st line = Inl e"
  using assms blank_headers[OF assms(2)] by (simp add: parse_line_def strip_blank)

text \<open>
  C10. A line of the relation config that is not empty and is blank (only white
  space) or starts with none of \<open>UNIQUE:\<close>, \<open>NAME:\<close>, \<open>OTHER:\<close> and a tab ends
  \<open>parse_relations\<close> with an error and exit status 1, whatever the lines before and
  after it. When the lines before it parse and the line does not start with a tab,
  the error is the message \<open>Invalid format of the config file ...\<close> followed by
  \<open>exit(1)\<close>; a blank line that starts with a tab fails in the unpacking of the
  split instead. Blank separator lines are therefore fatal.
\<close>

theorem blank_or_malformed_line_is_fatal:
  assumes "line \<noteq> []"
    and "(\<forall>c\<in>set line. is_space c)
         \<or> \<not> (startswith line ''UNIQUE:'' \<or> startswith line ''NAME:''
               \<or> startswith line ''OTHER:'' \<or> startswith line [CHR 0x09])"
  shows "\<exists>e. parse_relations fname (Some (pre @ line # post)) kb1 kb2 = Inl e
            \<and> exit_status e = 1
            \<and> ((\<exists>st. parse_lines fname kb1 kb2 (0, []) pre = Inr st)
                 \<and> \<not> startswith line [CHR 0x09]
               \<longrightarrow> e = SystemExit (''Invalid format of the config file '' @ fname @ ''.'') 1)"
proof (cases "parse_lines fname kb1 kb2 (0, []) pre")
  case (Inl e)
  then have "parse_relations fname (Some (pre @ line # post)) kb1 kb2 = Inl e"
    by (simp add: parse_relations_def parse_lines_append)
  moreover have "exit_status e = 1" using Inl by (rule parse_lines_exit_status)
  ultimately show ?thesis using Inl by simp
next
  case (Inr st)
  have hdr: "\<not> startswith line ''UNIQUE:'' \<and> \<not> startswith line ''NAME:''
          \<and> \<not> startswith line ''OTHER:''"
    using assms(2) blank_headers by blast
  have "\<exists>e. parse_line fname kb1 kb2 st line = Inl e"
  proof (cases "startswith line [CHR 0x09]")
    case True
    with assms(2) have "\<forall>c\<in>set line. is_space c" by blast
    with assms(1) show ?thesis by (rule parse_blank_line)
  next
    case False
    from parse_bad_line[OF assms(1) hdr False] show ?thesis by blast
  qed
  then obtain e where e: "parse_line fname kb1 kb2 st line = Inl e" ..
  have r: "parse_relations fname (Some (pre @ line # post)) kb1 kb2 = Inl e"
    using Inr e by (simp add: parse_relations_def parse_lines_append)
  have s: "exit_status e = 1" using e by (rule parse_line_exit_status)
  have "e = SystemExit (''Invalid format of the config file '' @ fname @ ''.'') 1"
    if "\<not> startswith line [CHR 0x09]"
    using parse_bad_line[OF assms(1) hdr that, of fname kb1 kb2 st] e by simp
  with r s show ?thesis by blast
qed

lemma ex_pre_ok: "parse_lines ''rel.conf'' ex_kb1 ex_kb2 (0, []) ex_rel_pre
    = Inr (UNIQUE, [\<lparr>kb1_field = 0, kb2_field = 0, rtype = UNIQUE, blacklist = {}\<rparr>])"
  by (simp add: ex_rel_pre_def parse_line_def startswith_def strip_def is_space_def
          ex_kb1_def ex_kb2_def get_field_order_num_def)

theorem blank_or_malformed_line_is_fatal_witness:
  "[CHR 0x0A] \<noteq> []
   \<and> ((\<forall>c\<in>set [CHR 0x0A]. is_space c)
         \<or> \<not> (startswith [CHR 0x0A] ''UNIQUE:'' \<or> startswith [CHR 0x0A] ''NAME:''
               \<or> startswith [CHR 0x0A] ''OTHER:'' \<or> startswith [CHR 0x0A] [CHR 0x09]))
   \<and> parse_relations ''rel.conf'' (Some (ex_rel_pre @ [CHR 0x0A] # ex_rel_post)) ex_kb1 ex_kb2
      = Inl (SystemExit ''Invalid format of the config file rel.conf.'' 1)"
proof -
  have h1: "[CHR 0x0A] \<noteq> []" by simp
  have h2: "(\<forall>c\<in>set [CHR 0x0A]. is_space c)
         \<or> \<not> (startswith [CHR 0x0A] ''UNIQUE:'' \<or> startswith [CHR 0x0A] ''NAME:''
               \<or> startswith [CHR 0x0A] ''OTHER:'' \<or> startswith [CHR 0x0A] [CHR 0x09])"
    by (simp add: is_space_def)
  have h3: "\<exists>st. parse_lines ''rel.conf'' ex_kb1 ex_kb2 (0, []) ex_rel_pre = Inr st"
    using ex_pre_ok by blast
  have h4: "\<not> startswith [CHR 0x0A] [CHR 0x09]" by (simp add: startswith_def)
  from blank_or_malformed_line_is_fatal[OF h1 h2, of "''rel.conf''" ex_rel_pre ex_rel_post ex_kb1 ex_kb2]
  obtain e where e: "parse_relations ''rel.conf'' (Some (ex_rel_pre @ [CHR 0x0A] # ex_rel_post)) ex_kb1 ex_kb2 = Inl e"
    "(\<exists>st. parse_lines ''rel.conf'' ex_kb1 ex_kb2 (0, []) ex_rel_pre = Inr st)
                 \<and> \<not> startswith [CHR 0x0A] [CHR 0x09]
               \<longrightarrow> e = SystemExit (''Invalid format of the config file '' @ ''rel.conf'' @ ''.'') 1"
    by blast
  from e(2) h3 h4 have "e = SystemExit (''Invalid format of the config file '' @ ''rel.conf'' @ ''.'') 1"
    by blast
  with e(1) h1 h2 show ?thesis by simp
qed

section \<open>Unfolding the deduplication on an example\<close>

lemma collectUniqueIds_Nil: "collectUniqueIds st idx keys [] d bl = Some (Inr (d, bl))"
  by (subst collectUniqueIds.simps) simp

lemma collectUniqueIds_Cons:
  "collectUniqueIds st idx keys (x # rest) d bl =
     (case collect_entity idx keys (st (fst x)) (snd x) d bl of
        Inl err \<Rightarrow> Some (Inl err)
      | Inr r \<Rightarrow> collectUniqueIds st idx keys (rest @ snd (snd r)) (fst r) (fst (snd r)))"
  by (subst collectUniqueIds.simps) simp

lemmas dedup_eval = deduplicate_def deduplicate_indexed_def unique_ids_fields_idx_def dedup_entity_def fuse_def
  collectUniqueIds_Nil collectUniqueIds_Cons collect_entity_def collect_id_def index_get_iter_def
  extend_data_def uniqifyList_def countNonEmptyFields_def
  make_index_def fields_to_index_def blackdict_def get_field_def index_add_def dict_get_def set_add_def
  kb_contains_def get_field_order_num_def UNIQUE_def NAME_def OTHER_def Let_def

section \<open>Phase A: the conflict guard\<close>
























section \<open>Phase B: the UNIQUE-disagreement veto\<close>

















lemma ex5_index2_built: "make_index ex5_kb2_store [0] 3 ex_rels kb2_field = Inr ex5_index2"
  by (simp add: make_index_def fields_to_index_def blackdict_def ex_rels_def ex5_kb2_store_def
        blank_entity_def ex5_index2_def get_field_def index_add_def dict_get_def set_add_def
        UNIQUE_def NAME_def OTHER_def upt_rec)







section \<open>The threshold\<close>


















section \<open>The renderer (Output.make\_output)\<close>

lemma matched_tokens_append:
  "matched_tokens sha p kb1 kb2 st2 rels line (toks @ extra) g os =
     (case matched_tokens sha p kb1 kb2 st2 rels line toks g os of
        Inl err \<Rightarrow> Inl err
      | Inr (g', os') \<Rightarrow> matched_tokens sha p kb1 kb2 st2 rels line extra g' os')"
  by (induction toks arbitrary: g os) (auto split: sum.splits)

lemma make_output_loop_append:
  "make_output_loop sha p kb1 kb2 st1 st2 rels ofs oofs (pre @ rest) os =
     (case make_output_loop sha p kb1 kb2 st1 st2 rels ofs oofs pre os of
        Inl err \<Rightarrow> Inl err
      | Inr os' \<Rightarrow> make_output_loop sha p kb1 kb2 st1 st2 rels ofs oofs rest os')"
  by (induction pre arbitrary: os) (auto split: sum.splits)

lemma matched_field_token_missing:
  assumes "matched line = None" "\<not> startswith f (kb_name kb1)"
    and "map_of (kb_fields kb2) f = Some ff"
  shows "matched_field_token kb1 kb2 st2 rels line f os =
           Inl (AttributeError, os\<lparr>printed := printed os @ [line]\<rparr>)"
  using assms by (simp add: matched_field_token_def matched_get_field_def)

lemma matched_field_token_fails:
  assumes "matched line = None" "\<not> startswith f (kb_name kb1)"
  shows "\<exists>err os'. matched_field_token kb1 kb2 st2 rels line f os = Inl (err, os')"
  using assms by (simp add: matched_field_token_def matched_get_field_def split: option.splits)

lemma matched_token_missing:
  assumes "matched line = None" "\<not> startswith f (kb_name kb1)"
    and "f \<noteq> ''ID''" "\<not> startswith f [CHR 0x22]"
    and "map_of (kb_fields kb2) f = Some ff"
  shows "matched_token sha p kb1 kb2 st2 rels line (Some f) os =
           Inl (AttributeError, os\<lparr>printed := printed os @ [line]\<rparr>)"
  using assms by (simp add: matched_token_def matched_field_token_missing)

lemma matched_token_fails:
  assumes "matched line = None" "\<not> startswith f (kb_name kb1)"
    and "f \<noteq> ''ID''" "\<not> startswith f [CHR 0x22]"
  shows "\<exists>err os'. matched_token sha p kb1 kb2 st2 rels line (Some f) os = Inl (err, os')"
  using assms matched_field_token_fails[of line f kb1 kb2 st2 rels os]
  by (simp add: matched_token_def)

lemma matched_tokens_fails:
  assumes "matched line = None" "\<not> startswith f (kb_name kb1)"
    and "f \<noteq> ''ID''" "\<not> startswith f [CHR 0x22]"
    and "Some f \<in> set toks"
  shows "\<exists>err os'. matched_tokens sha p kb1 kb2 st2 rels line toks g os = Inl (err, os')"
  using assms(5)
proof (induction toks arbitrary: g os)
  case Nil
  then show ?case by simp
next
  case (Cons t toks)
  show ?case
  proof (cases "matched_token sha p kb1 kb2 st2 rels line t os")
    case (Inl e)
    then show ?thesis by (cases e) simp
  next
    case (Inr r)
    then have "t \<noteq> Some f"
      using matched_token_fails[OF assms(1-4), of sha p kb2 st2 rels os] by auto
    then have "Some f \<in> set toks" using Cons.prems by simp
    from Cons.IH[OF this] show ?thesis using Inr by (cases r) simp
  qed
qed

lemma matched_token_output_fd:
  "matched_token sha p kb1 kb2 st2 rels line t os = Inr (cell, os') \<Longrightarrow> output_fd os' = output_fd os"
  by (auto simp: matched_token_def generateId_next_def matched_field_token_def Let_def
           split: if_splits option.splits sum.splits)

lemma matched_tokens_output_fd:
  "matched_tokens sha p kb1 kb2 st2 rels line toks g os = Inr (g', os') \<Longrightarrow> output_fd os' = output_fd os"
proof (induction toks arbitrary: g os)
  case Nil
  then show ?case by simp
next
  case (Cons t toks)
  then show ?case
    by (auto split: sum.splits dest!: matched_token_output_fd)
qed

text \<open>
  C9 (as the code has it). A record of KB1 that is marked used and has no partner
  is printed to standard output when the template reaches a token naming a field
  of KB2, and the next statement raises AttributeError: rendering ends there.
  No line is written for the record or for any record after it.
\<close>

theorem missing_matched_aborts:
  assumes "used (st1 a)" and "matched (st1 a) = None"
    and "output_fields = toks @ Some f # extra"
    and "f \<noteq> ''ID''" and "\<not> startswith f [CHR 0x22]" and "\<not> startswith f (kb_name kb1)"
    and "map_of (kb_fields kb2) f = Some ff"
    and "make_output_loop sha id_prefix kb1 kb2 st1 st2 relations output_fields other_output_fields pre os
           = Inr os1"
    and "matched_tokens sha id_prefix kb1 kb2 st2 relations (st1 a) toks [] os1 = Inr (g, os2)"
  shows "make_output_loop sha id_prefix kb1 kb2 st1 st2 relations output_fields other_output_fields
           (pre @ a # rest) os
         = Inl (AttributeError, os2\<lparr>printed := printed os2 @ [st1 a]\<rparr>)
         \<and> output_fd os2 = output_fd os1"
proof -
  have "matched_tokens sha id_prefix kb1 kb2 st2 relations (st1 a) output_fields [] os1
          = Inl (AttributeError, os2\<lparr>printed := printed os2 @ [st1 a]\<rparr>)"
    using assms(9) matched_token_missing[OF assms(2) assms(6) assms(4) assms(5) assms(7)]
    by (simp add: assms(3) matched_tokens_append)
  then have "render_record sha id_prefix kb1 kb2 st2 relations output_fields other_output_fields (st1 a) os1
          = Inl (AttributeError, os2\<lparr>printed := printed os2 @ [st1 a]\<rparr>)"
    using assms(1) by (simp add: render_record_def)
  then show ?thesis
    using assms(8) matched_tokens_output_fd[OF assms(9)]
    by (simp add: make_output_loop_append)
qed

lemma ex9_tok: "matched_tokens (\<lambda>s. s) None ex_kb1 ex_kb2 ex9_kb2_store [] (ex9_kb1_store 0)
     [Some ''A.ID''] [] \<lparr>counter = 0, output_fd = [], printed = []\<rparr>
   = Inr ([[''1'']], \<lparr>counter = 0, output_fd = [], printed = []\<rparr>)"
  by (simp add: matched_token_def matched_field_token_def startswith_def ex_kb1_def ex_kb2_def
      ex9_kb1_store_def get_field_def related_values.simps truncate_single_def uniqifyList_unordered_def)

theorem missing_matched_aborts_witness:
  "make_output_loop (\<lambda>s. s) None ex_kb1 ex_kb2 ex9_kb1_store ex9_kb2_store []
       ex9_output_fields ex9_other_output_fields ([] @ 0 # [1]) \<lparr>counter = 0, output_fd = [], printed = []\<rparr>
     = Inl (AttributeError, \<lparr>counter = 0, output_fd = [], printed = [ex9_kb1_store 0]\<rparr>)"
  using missing_matched_aborts[of ex9_kb1_store 0 ex9_output_fields "[Some ''A.ID'']" "''B.NAME''" "[]"
      ex_kb1 ex_kb2 "\<lparr>order_num = 1, multiple = True\<rparr>" "(\<lambda>s. s)" None ex9_kb2_store "[]"
      ex9_other_output_fields "[]" "\<lparr>counter = 0, output_fd = [], printed = []\<rparr>"
      "\<lparr>counter = 0, output_fd = [], printed = []\<rparr>" "[[''1'']]"
      "\<lparr>counter = 0, output_fd = [], printed = []\<rparr>" "[1]"] ex9_tok
  by (simp add: ex9_kb1_store_def ex9_output_fields_def startswith_def ex_kb1_def ex_kb2_def)

text \<open>
  C9 (as the spec has it) fails: the used record 0 has no partner, the template
  names the field \<open>B.NAME\<close> of KB2; the renderer prints the record and stops with
  AttributeError, and the unmatched record 1 after it is never rendered.
\<close>

theorem missing_matched_continue_counterexample:
  "make_output (\<lambda>s. s) None ex_kb1 ex_kb2 ex9_kb1_store ex9_kb2_store []
       ex9_output_fields ex9_other_output_fields [0, 1]
     = Inl (AttributeError, \<lparr>counter = 0, output_fd = [], printed = [ex9_kb1_store 0]\<rparr>)
   \<and> unmatched_tokens (\<lambda>s. s) None ex_kb1 (ex9_kb1_store 1) ex9_other_output_fields []
        \<lparr>counter = 0, output_fd = [], printed = [ex9_kb1_store 0]\<rparr>
     = Inr ([[''2'']], \<lparr>counter = 0, output_fd = [], printed = [ex9_kb1_store 0]\<rparr>)"
  by (simp add: make_output_def render_record_def matched_token_def matched_field_token_def
      unmatched_token_def get_field_order_num_def kb_contains_def
      matched_get_field_def startswith_def ex_kb1_def ex_kb2_def ex9_output_fields_def
      ex9_other_output_fields_def
      ex9_kb1_store_def get_field_def truncate_single_def uniqifyList_unordered_def)


section \<open>Flags and pointers after matching\<close>































section \<open>Conflicts in \_collectUniqueIds\<close>

lemma new_black_ids_sets:
  "new_black_ids ps d = (bs, d') \<Longrightarrow>
     set bs = {q \<in> set ps. snd q \<in> set (d (fst q))}
     \<and> (\<forall>f. set (d' f) = set (d f) - {v. (f, v) \<in> set ps})"
proof (induction ps arbitrary: d bs d')
  case Nil
  then show ?case by auto
next
  case (Cons p ps)
  show ?case
  proof (cases "snd p \<in> set (d (fst p))")
    case False
    with Cons.prems have r: "new_black_ids ps d = (bs, d')" by simp
    from Cons.IH[OF r] False show ?thesis
      by (auto simp: prod_eq_iff)
  next
    case True
    let ?d1 = "d(fst p := removeAll (snd p) (d (fst p)))"
    from True Cons.prems obtain bs1 where r: "new_black_ids ps ?d1 = (bs1, d')" and bs: "bs = p # bs1"
      by (auto split: prod.splits)
    from Cons.IH[OF r] have
      b1: "set bs1 = {q \<in> set ps. snd q \<in> set (?d1 (fst q))}" and
      d1: "\<And>f. set (d' f) = set (?d1 f) - {v. (f, v) \<in> set ps}" by auto
    have "set bs = {q \<in> set (p # ps). snd q \<in> set (d (fst q))}"
      using b1 bs True by (auto simp: prod_eq_iff)
    moreover have "set (d' f) = set (d f) - {v. (f, v) \<in> set (p # ps)}" for f
      using d1[of f] by (cases p) auto
    ultimately show ?thesis by blast
  qed
qed

text \<open>
  C1 (as the code has it). On a conflict, that is when the identifier \<open>p = (f, v)\<close>
  of the current record is not in the blacklist, \<open>v\<close> is not collected for \<open>f\<close> and
  something else is: every identifier of the current record that is collected is
  taken out of the collected sets and put into the blacklist, and the candidates
  staged in this turn are dropped. Nothing else changes: \<open>p\<close> itself is neither
  collected nor blacklisted, and a collected identifier that the current record
  does not carry stays collected and is not blacklisted.
\<close>

theorem conflict_blacklists_shared_ids:
  assumes "p \<notin> black st" and "snd p \<notin> set (dest st (fst p))" and "dest st (fst p) \<noteq> []"
  shows "\<exists>st'. collect_id idx cur_ids p st = Inr st'
           \<and> (\<forall>f. set (dest st' f) = set (dest st f) - {v. (f, v) \<in> set cur_ids})
           \<and> black st' = black st \<union> {q \<in> set cur_ids. snd q \<in> set (dest st (fst q))}
           \<and> candidates_ids st' = [] \<and> candidates_entities st' = []
           \<and> p \<notin> black st' \<and> snd p \<notin> set (dest st' (fst p))"
proof -
  obtain bs d' where nb: "new_black_ids cur_ids (dest st) = (bs, d')" by (cases "new_black_ids cur_ids (dest st)")
  let ?st' = "st\<lparr>dest := d', black := black st \<union> set bs, candidates_ids := [], candidates_entities := []\<rparr>"
  have r: "collect_id idx cur_ids p st = Inr ?st'"
    using assms nb by (simp add: collect_id_def)
  from new_black_ids_sets[OF nb] have
    b: "set bs = {q \<in> set cur_ids. snd q \<in> set (dest st (fst q))}" and
    d: "\<And>f. set (d' f) = set (dest st f) - {v. (f, v) \<in> set cur_ids}" by auto
  have "p \<notin> set bs" using b assms(2) by simp
  then show ?thesis using r b d assms by auto
qed

lemma ex1_conflict:
  "(1, ''w'') \<notin> black ex1_cstate \<and> snd (1::nat, ''w'') \<notin> set (dest ex1_cstate (fst (1::nat, ''w'')))
     \<and> dest ex1_cstate (fst (1::nat, ''w'')) \<noteq> []"
  by (simp add: ex1_cstate_def ex1_collected_def)

theorem conflict_blacklists_shared_ids_witness:
  "black_after (collect_id ex1_index [(0, ''5''), (1, ''w'')] (1, ''w'') ex1_cstate) = Inr {(0, ''5'')}"
proof -
  from ex1_conflict have a: "(1, ''w'') \<notin> black ex1_cstate"
    and b: "snd (1::nat, ''w'') \<notin> set (dest ex1_cstate (fst (1::nat, ''w'')))"
    and c: "dest ex1_cstate (fst (1::nat, ''w'')) \<noteq> []" by blast+
  from conflict_blacklists_shared_ids[OF a b c, of ex1_index "[(0, ''5''), (1, ''w'')]"]
  obtain st' where r: "collect_id ex1_index [(0, ''5''), (1, ''w'')] (1, ''w'') ex1_cstate = Inr st'"
    and bl: "black st' = black ex1_cstate \<union> {q \<in> set [(0, ''5''), (1, ''w'')]. snd q \<in> set (dest ex1_cstate (fst q))}"
    by blast
  have "{q \<in> set [(0::nat, ''5''), (1, ''w'')]. snd q \<in> set (dest ex1_cstate (fst q))} = {(0, ''5'')}"
    by (auto simp: ex1_cstate_def ex1_collected_def)
  with bl have "black st' = {(0, ''5'')}" by (simp add: ex1_cstate_def)
  with r show ?thesis by (simp add: black_after_def)
qed

text \<open>
  C1 (as the spec has it) fails. Record 0 has the identifiers (0, 5) and (1, u),
  record 1 has (0, 5) and (1, w). From record 0 the identifiers 5 and u are
  collected; record 1 then brings w into field 1, which holds u. The turn for record 1
  removes 5, the first value met in field 0, from the cluster and blacklists it;
  the two values in conflict, the incumbent u and the newcomer w, are not put into
  the blacklist, neither in this turn nor by the end of the pass.
\<close>

theorem conflict_quarantine_counterexample:
  "make_index ex1_store [0, 1] 2
      [\<lparr>kb1_field = 0, kb2_field = 0, rtype = UNIQUE, blacklist = {}\<rparr>,
       \<lparr>kb1_field = 1, kb2_field = 0, rtype = UNIQUE, blacklist = {}\<rparr>] kb1_field = Inr ex1_index
   \<and> turn_view (collect_entity ex1_index [0, 1] (ex1_store 1) (Some (0, ''5'')) ex1_collected {})
       = Inr ([], [''u''], {(0, ''5'')}, [])
   \<and> deduplicate ex_kb1 ex1_store [0, 1] 2 [''ID'', ''FREEBASE URL''] {}
       = Some (Inr \<lparr>records = ex1_store, blacklist_of_uniques = {(0, ''5'')},
                    new_kb_entities = [0, 1], next_address = 2\<rparr>)"
proof -
  have i: "make_index ex1_store [0, 1] 2
      [\<lparr>kb1_field = 0, kb2_field = 0, rtype = UNIQUE, blacklist = {}\<rparr>,
       \<lparr>kb1_field = 1, kb2_field = 0, rtype = UNIQUE, blacklist = {}\<rparr>] kb1_field = Inr ex1_index"
    by (simp add: make_index_def fields_to_index_def blackdict_def ex1_store_def
        ex1_index_def get_field_def index_add_def dict_get_def set_add_def
        UNIQUE_def NAME_def OTHER_def upt_rec)
  have t: "turn_view (collect_entity ex1_index [0, 1] (ex1_store 1) (Some (0, ''5'')) ex1_collected {})
       = Inr ([], [''u''], {(0, ''5'')}, [])"
    by (simp add: turn_view_def collect_entity_def collect_id_def ex1_store_def ex1_index_def
        ex1_collected_def get_field_def index_get_iter_def)
  have d: "deduplicate ex_kb1 ex1_store [0, 1] 2 [''ID'', ''FREEBASE URL''] {}
       = Some (Inr \<lparr>records = ex1_store, blacklist_of_uniques = {(0, ''5'')},
                    new_kb_entities = [0, 1], next_address = 2\<rparr>)"
    by (simp add: dedup_eval ex_kb1_def ex1_store_def upt_rec)
  from i t d show ?thesis by simp
qed

end
